theory Spec2Isabelle
  imports Main "HOL-Library.Sublist"
begin

section \<open>Strings\<close>

text \<open>
  A JavaScript string is modelled by the bytes of its UTF-8 encoding (\<^typ>\<open>string\<close>).
  Every string operation of the formatters (concatenation, \<open>startsWith\<close>, \<open>replace\<close>
  with an ASCII pattern, the ASCII regular expressions, \<open>join\<close>, \<open>trim\<close>) acts on a
  well-formed UTF-8 encoding the way it acts on the UTF-16 original; no formatter reads
  the length of a string.
\<close>

definition NL :: char where
  "NL = CHR 0x0A"

text \<open>\<open>Array.prototype.join\<close> on an array of strings.\<close>

fun join :: "string \<Rightarrow> string list \<Rightarrow> string" where
  "join sep [] = []"
| "join sep [x] = x"
| "join sep (x # y # ys) = x @ sep @ join sep (y # ys)"

text \<open>
  \<open>String.prototype.replace(pattern, replacement)\<close> with a string pattern: the first
  occurrence only. The replacements used by the formatters (\<open>' '\<close>, \<open>'/browse/'\<close>)
  hold no \<open>$\<close>, so no replacement pattern is expanded.
\<close>

fun replace_first :: "string \<Rightarrow> string \<Rightarrow> string \<Rightarrow> string" where
  "replace_first pat rep [] = (if pat = [] then rep else [])"
| "replace_first pat rep (c # cs) =
     (if prefix pat (c # cs) then rep @ drop (length pat) (c # cs)
      else c # replace_first pat rep cs)"

definition is_digit :: "char \<Rightarrow> bool" where
  "is_digit c = (c \<in> set ''0123456789'')"

subsection \<open>Numbers in template literals\<close>

text \<open>
  Counts, totals, status codes and heading levels are integer-valued numbers; they are
  modelled as \<^typ>\<open>int\<close> (\<^typ>\<open>nat\<close> for an array length) and rendered in decimal as
  \<open>Number.prototype.toString\<close> renders an integer.
\<close>

definition digit_char :: "nat \<Rightarrow> char" where
  "digit_char n = ''0123456789'' ! (n mod 10)"

function show_nat :: "nat \<Rightarrow> string" where
  "show_nat n = (if n < 10 then [digit_char n] else show_nat (n div 10) @ [digit_char n])"
  by pat_completeness auto
termination
  by (relation "measure id") auto

declare show_nat.simps [simp del]

definition show_int :: "int \<Rightarrow> string" where
  "show_int i = (if i < 0 then CHR ''-'' # show_nat (nat (- i)) else show_nat (nat i))"

section \<open>JavaScript values, dates and the host\<close>

text \<open>
  A \<open>Date\<close> is either invalid (its time value is \<open>NaN\<close>) or a point in time, given by
  its UTC calendar fields.
\<close>

record utc_fields =
  year :: int
  month :: nat
  day :: nat
  hours :: nat
  minutes :: nat
  seconds :: nat
  millis :: nat

datatype js_date = InvalidDate | ValidDate utc_fields

datatype js_error = RangeError | TypeError

text \<open>
  What the formatters read of a value of type \<open>unknown\<close>: the values of parsed JSON, and
  \<open>Date\<close> objects. An object is the list of its own properties in the order
  \<open>Object.entries\<close> enumerates them, with distinct keys and the default
  \<open>Object.prototype.toString\<close>.
\<close>

datatype js_value =
    JUndefined
  | JNull
  | JBool bool
  | JNum int
  | JStr string
  | JDate js_date
  | JArr "js_value list"
  | JObj "(string \<times> js_value) list"

text \<open>
  The built-ins whose result depends on the engine, its locale and its time zone are
  parameters of the model: the \<open>Date\<close> constructor on a string and on a number, and
  \<open>toLocaleString()\<close> and \<open>toString()\<close> of a valid date.
\<close>

record host =
  date_parse :: "string \<Rightarrow> js_date"
  date_of_number :: "int \<Rightarrow> js_date"
  locale_string :: "utc_fields \<Rightarrow> string"
  date_string :: "utc_fields \<Rightarrow> string"

text \<open>
  \<open>Date.prototype.toLocaleString()\<close> with no argument does not throw: for an invalid
  date it returns the text \<open>Invalid Date\<close>. \<open>Date.prototype.toISOString()\<close> throws a
  \<open>RangeError\<close> for an invalid date.
\<close>

definition toLocaleString :: "host \<Rightarrow> js_date \<Rightarrow> js_error + string" where
  "toLocaleString h d =
     Inr (case d of InvalidDate \<Rightarrow> ''Invalid Date'' | ValidDate t \<Rightarrow> locale_string h t)"

definition pad :: "nat \<Rightarrow> nat \<Rightarrow> string" where
  "pad w n = replicate (w - length (show_nat n)) (CHR ''0'') @ show_nat n"

definition iso_year :: "int \<Rightarrow> string" where
  "iso_year y =
     (if 0 \<le> y \<and> y \<le> 9999 then pad 4 (nat y)
      else (if y < 0 then ''-'' else ''+'') @ pad 6 (nat \<bar>y\<bar>))"

definition toISOString :: "js_date \<Rightarrow> js_error + string" where
  "toISOString d =
     (case d of
        InvalidDate \<Rightarrow> Inl RangeError
      | ValidDate t \<Rightarrow>
          Inr (iso_year (year t) @ ''-'' @ pad 2 (month t) @ ''-'' @ pad 2 (day t) @ ''T''
               @ pad 2 (hours t) @ '':'' @ pad 2 (minutes t) @ '':'' @ pad 2 (seconds t)
               @ ''.'' @ pad 3 (millis t) @ ''Z''))"

fun js_truthy :: "js_value \<Rightarrow> bool" where
  "js_truthy JUndefined = False"
| "js_truthy JNull = False"
| "js_truthy (JBool b) = b"
| "js_truthy (JNum n) = (n \<noteq> 0)"
| "js_truthy (JStr s) = (s \<noteq> [])"
| "js_truthy _ = True"

text \<open>\<open>String(value)\<close>; an array joins its elements with a comma, \<open>null\<close> and
  \<open>undefined\<close> elements as the empty string.\<close>

fun js_String :: "host \<Rightarrow> js_value \<Rightarrow> string" where
  "js_String h JUndefined = ''undefined''"
| "js_String h JNull = ''null''"
| "js_String h (JBool b) = (if b then ''true'' else ''false'')"
| "js_String h (JNum n) = show_int n"
| "js_String h (JStr s) = s"
| "js_String h (JDate d) =
     (case d of InvalidDate \<Rightarrow> ''Invalid Date'' | ValidDate t \<Rightarrow> date_string h t)"
| "js_String h (JArr xs) =
     join '','' (map (\<lambda>x. if x = JUndefined \<or> x = JNull then [] else js_String h x) xs)"
| "js_String h (JObj kvs) = ''[object Object]''"

text \<open>\<open>typeof v === 'object' && v !== null\<close>, \<open>k in v\<close> and \<open>v[k]\<close> for the
  property names the formatters ask for (\<open>url\<close>, \<open>title\<close>, \<open>name\<close>), which no array
  and no date has.\<close>

fun is_object :: "js_value \<Rightarrow> bool" where
  "is_object (JDate d) = True"
| "is_object (JArr xs) = True"
| "is_object (JObj kvs) = True"
| "is_object _ = False"

fun has_property :: "string \<Rightarrow> js_value \<Rightarrow> bool" where
  "has_property k (JObj kvs) = (k \<in> set (map fst kvs))"
| "has_property k _ = False"

fun get_property :: "string \<Rightarrow> js_value \<Rightarrow> js_value" where
  "get_property k (JObj kvs) = (case map_of kvs k of None \<Rightarrow> JUndefined | Some v \<Rightarrow> v)"
| "get_property k _ = JUndefined"

section \<open>Primitive renderers (utils/formatter.util.ts)\<close>

text \<open>
  \<open>formatUrl(url?, title?)\<close>: \<open>None\<close> is an absent argument. \<open>!url\<close> holds for the
  absent and for the empty string; \<open>title || url\<close> takes the url for an absent or empty
  title.
\<close>

definition formatUrl :: "string option \<Rightarrow> string option \<Rightarrow> string" where
  "formatUrl url title =
     (case url of
        None \<Rightarrow> ''Not available''
      | Some u \<Rightarrow>
          if u = [] then ''Not available''
          else
            let linkTitle = (case title of None \<Rightarrow> u | Some t \<Rightarrow> if t = [] then u else t)
            in ''['' @ linkTitle @ '']('' @ u @ '')'')"

definition formatHeading :: "string \<Rightarrow> int \<Rightarrow> string" where
  "formatHeading text level =
     (let validLevel = min (max level 1) 6;
          prefix = replicate (nat validLevel) (CHR ''#'')
      in prefix @ '' '' @ text)"

definition formatSeparator :: string where
  "formatSeparator = ''---''"

text \<open>The test of \<open>/^\d{4}-\d{2}-\d{2}T\d{2}:\d{2}:\d{2}/\<close>.\<close>

definition date_time_prefix :: "string \<Rightarrow> bool" where
  "date_time_prefix s =
     (case s of
        y1 # y2 # y3 # y4 # d1 # m1 # m2 # d2 # a1 # a2 # t # h1 # h2 # c1 # n1 # n2 # c2
          # s1 # s2 # rest \<Rightarrow>
          is_digit y1 \<and> is_digit y2 \<and> is_digit y3 \<and> is_digit y4 \<and> d1 = CHR ''-''
          \<and> is_digit m1 \<and> is_digit m2 \<and> d2 = CHR ''-'' \<and> is_digit a1 \<and> is_digit a2
          \<and> t = CHR ''T'' \<and> is_digit h1 \<and> is_digit h2 \<and> c1 = CHR '':''
          \<and> is_digit n1 \<and> is_digit n2 \<and> c2 = CHR '':'' \<and> is_digit s1 \<and> is_digit s2
      | _ \<Rightarrow> False)"

text \<open>
  \<open>formatValue(value)\<close>. Each \<open>try\<close> block is the call of \<open>toLocaleString\<close>, whose
  result is an error or a string; the \<open>catch\<close> is the \<open>Inl\<close> branch. In the object
  branch the title reaches \<open>formatUrl\<close> as it is, whatever its type: a falsy title
  gives way to the url there, a truthy one is converted by the template literal. A
  truthy title that converts to the empty text (the array \<open>[]\<close>) stays the link text,
  which \<open>formatUrl\<close> on strings cannot express, so that case is written out.
\<close>

definition formatValue :: "host \<Rightarrow> js_value \<Rightarrow> string" where
  "formatValue h v =
     (if v = JUndefined \<or> v = JNull then ''Not available''
      else
        case v of
          JDate d \<Rightarrow>
            (case toLocaleString h d of Inr s \<Rightarrow> s | Inl e \<Rightarrow> ''Invalid date'')
        | _ \<Rightarrow>
            if is_object v \<and> has_property ''url'' v
               \<and> (case get_property ''url'' v of JStr u \<Rightarrow> True | _ \<Rightarrow> False)
            then
              let url = (case get_property ''url'' v of JStr u \<Rightarrow> u | _ \<Rightarrow> []);
                  title = get_property ''title'' v
              in if js_truthy title \<and> js_String h title = []
                 then (if url = [] then ''Not available'' else ''[]('' @ url @ '')'')
                 else formatUrl (Some url)
                        (if js_truthy title then Some (js_String h title) else None)
            else
              case v of
                JStr s \<Rightarrow>
                  if prefix ''http://'' s \<or> prefix ''https://'' s then formatUrl (Some s) None
                  else if date_time_prefix s then
                    (case toLocaleString h (date_parse h s) of
                       Inr r \<Rightarrow> r
                     | Inl e \<Rightarrow> ''Invalid date string'')
                  else s
              | JBool b \<Rightarrow> if b then ''Yes'' else ''No''
              | _ \<Rightarrow> js_String h v)"

text \<open>\<open>formatBulletList(items, keyFormatter?)\<close>: the loop skips (\<open>continue\<close>) the entries
  whose value is \<open>undefined\<close> or \<open>null\<close>.\<close>

definition formatBulletList ::
  "host \<Rightarrow> (string \<times> js_value) list \<Rightarrow> (string \<Rightarrow> string) option \<Rightarrow> string" where
  "formatBulletList h items keyFormatter =
     join [NL]
       (map (\<lambda>(key, value).
               let formattedKey = (case keyFormatter of None \<Rightarrow> key | Some f \<Rightarrow> f key);
                   formattedValue = formatValue h value
               in ''- **'' @ formattedKey @ ''**: '' @ formattedValue)
          (filter (\<lambda>(key, value). \<not> (value = JUndefined \<or> value = JNull)) items))"

text \<open>
  \<open>formatDate(dateInput?)\<close>. The regular expression \<open>/\.\d+Z$/\<close> matches a dot, one or
  more digits and a \<open>Z\<close> that ends the string; \<open>replace\<close> rewrites its leftmost match.
\<close>

datatype date_input = NoDate | OfDate js_date | OfString string | OfNumber int

definition frac_Z :: "string \<Rightarrow> bool" where
  "frac_Z s =
     (case s of
        [] \<Rightarrow> False
      | c # cs \<Rightarrow> c = CHR ''.'' \<and> takeWhile is_digit cs \<noteq> [] \<and> dropWhile is_digit cs = ''Z'')"

fun replace_frac_Z :: "string \<Rightarrow> string" where
  "replace_frac_Z [] = []"
| "replace_frac_Z (c # cs) =
     (if frac_Z (c # cs) then '' UTC'' else c # replace_frac_Z cs)"

definition formatDate :: "host \<Rightarrow> date_input \<Rightarrow> string" where
  "formatDate h dateInput =
     (case dateInput of
        NoDate \<Rightarrow> ''Not available''
      | _ \<Rightarrow>
          let date = (case dateInput of
                        OfDate d \<Rightarrow> d
                      | OfString s \<Rightarrow> date_parse h s
                      | OfNumber n \<Rightarrow> date_of_number h n
                      | NoDate \<Rightarrow> InvalidDate)
          in if date = InvalidDate then ''Invalid date input''
             else
               case toISOString date of
                 Inr isoString \<Rightarrow> replace_frac_Z (replace_first ''T'' '' '' isoString)
               | Inl e \<Rightarrow> ''Invalid date'')"

text \<open>
  \<open>String.prototype.trim()\<close> removes the white space and line terminators of
  ECMAScript from both ends; \<open>white_space\<close> lists their UTF-8 encodings (U+0009 to
  U+000D, U+0020, U+00A0, U+1680, U+2000 to U+200A, U+2028, U+2029, U+202F, U+205F,
  U+3000, U+FEFF).
\<close>

definition white_space :: "string list" where
  "white_space =
     [[CHR 0x09], [CHR 0x0A], [CHR 0x0B], [CHR 0x0C], [CHR 0x0D], [CHR 0x20],
      [CHR 0xC2, CHR 0xA0], [CHR 0xE1, CHR 0x9A, CHR 0x80],
      [CHR 0xE2, CHR 0x80, CHR 0x80], [CHR 0xE2, CHR 0x80, CHR 0x81],
      [CHR 0xE2, CHR 0x80, CHR 0x82], [CHR 0xE2, CHR 0x80, CHR 0x83],
      [CHR 0xE2, CHR 0x80, CHR 0x84], [CHR 0xE2, CHR 0x80, CHR 0x85],
      [CHR 0xE2, CHR 0x80, CHR 0x86], [CHR 0xE2, CHR 0x80, CHR 0x87],
      [CHR 0xE2, CHR 0x80, CHR 0x88], [CHR 0xE2, CHR 0x80, CHR 0x89],
      [CHR 0xE2, CHR 0x80, CHR 0x8A], [CHR 0xE2, CHR 0x80, CHR 0xA8],
      [CHR 0xE2, CHR 0x80, CHR 0xA9], [CHR 0xE2, CHR 0x80, CHR 0xAF],
      [CHR 0xE2, CHR 0x81, CHR 0x9F], [CHR 0xE3, CHR 0x80, CHR 0x80],
      [CHR 0xEF, CHR 0xBB, CHR 0xBF]]"

function strip_units :: "string list \<Rightarrow> string \<Rightarrow> string" where
  "strip_units us s =
     (case find (\<lambda>w. w \<noteq> [] \<and> prefix w s) us of
        None \<Rightarrow> s
      | Some w \<Rightarrow> strip_units us (drop (length w) s))"
  by pat_completeness auto
termination
proof (relation "measure (\<lambda>(us, s). length s)")
  show "wf (measure (\<lambda>(us, s). length s))"
    by simp
next
  fix us :: "string list" and s w :: string
  assume "find (\<lambda>w. w \<noteq> [] \<and> prefix w s) us = Some w"
  then have "w \<noteq> []" and "prefix w s"
    by (auto simp: find_Some_iff)
  then have "length w > 0" and "length w \<le> length s"
    by (auto simp: prefix_length_le)
  then show "((us, drop (length w) s), (us, s)) \<in> measure (\<lambda>(us, s). length s)"
    by (cases w) auto
qed

declare strip_units.simps [simp del]

definition trim :: "string \<Rightarrow> string" where
  "trim s = rev (strip_units (map rev white_space) (rev (strip_units white_space s)))"

section \<open>Pagination footer (utils/formatter.util.ts)\<close>

text \<open>
  Modelled from the spec: the interface \<open>ResponsePagination\<close> of
  \<open>types/common.types.ts\<close>, a page-state descriptor with \<open>count\<close>, \<open>total?\<close>, the
  \<open>hasMore\<close> flag and \<open>nextCursor?\<close>. The counts are numbers; the cursor is the text of
  the next offset. \<open>None\<close> is an absent (\<open>undefined\<close>) property.
\<close>

record ResponsePagination =
  count :: "int option"
  total :: "int option"
  hasMore :: bool
  nextCursor :: "string option"

text \<open>
  \<open>formatPagination(pagination)\<close>. \<open>now\<close> is the value of \<open>new Date()\<close>, a valid date.
  The destructuring default replaces an absent \<open>count\<close> by 0. The debug log line does
  not reach the result.
\<close>

definition formatPagination :: "host \<Rightarrow> ResponsePagination \<Rightarrow> utc_fields \<Rightarrow> string" where
  "formatPagination h pagination now =
     (let cnt = (case count pagination of None \<Rightarrow> 0 | Some c \<Rightarrow> c);
          parts0 = [formatSeparator];
          parts1 =
            (if (case total pagination of None \<Rightarrow> False | Some t \<Rightarrow> t \<ge> 0)
             then parts0 @ [''*Showing '' @ show_int cnt @ '' of ''
                            @ show_int (the (total pagination)) @ '' total items.*'']
             else if cnt \<ge> 0
             then parts0 @ [''*Showing '' @ show_int cnt @ '' item''
                            @ (if cnt \<noteq> 1 then ''s'' else []) @ ''.*'']
             else parts0);
          parts2 = (if hasMore pagination then parts1 @ [''More results are available.'']
                    else parts1);
          parts3 =
            (if hasMore pagination
                \<and> (case nextCursor pagination of None \<Rightarrow> False | Some c \<Rightarrow> c \<noteq> [])
             then parts2 @ [''*Use --start-at '' @ the (nextCursor pagination)
                            @ '' to view more.*'']
             else parts2);
          parts4 = parts3 @ [''*Information retrieved at: ''
                             @ formatDate h (OfDate (ValidDate now)) @ ''*'']
      in trim (join [NL] parts4))"

section \<open>Issue creation formatters (controllers/atlassian.issues.create.formatter.ts)\<close>

text \<open>
  Modelled from the spec: the response types of
  \<open>services/vendor.atlassian.issues.types.ts\<close>. A field descriptor has a name, a
  key and a field id, a required flag, a schema with a type and optional system and
  custom attributes, optional allowed values and an optional default value. An issue
  type has an id, a name, an optional description, a subtask flag and a mapping of
  field id to field descriptor. The metadata response has either the single-type shape
  (fields, name, description) or the legacy shape (projects, each with a name, a key
  and issue types). A created issue has a key, an id, the url \<open>self\<close> and an optional
  transition with a status and an optional error collection (error messages, and
  errors by field name). \<open>None\<close> is an absent property (\<open>JUndefined\<close> for the
  default value, of type \<open>unknown\<close>); the allowed values are \<open>None\<close> also when they are
  not an array; a mapping is the list of its entries in the order of \<open>Object.entries\<close>.
\<close>

record FieldSchema =
  schema_type :: string
  schema_system :: "string option"
  schema_custom :: "string option"

record CreateMetaField =
  field_required :: bool
  field_name :: string
  field_key :: "string option"
  field_fieldId :: "string option"
  field_schema :: FieldSchema
  field_allowedValues :: "js_value list option"
  field_defaultValue :: js_value

record IssueTypeMeta =
  issuetype_id :: string
  issuetype_name :: string
  issuetype_description :: "string option"
  issuetype_subtask :: bool
  issuetype_fields :: "(string \<times> CreateMetaField) list"

record ProjectMeta =
  project_name :: string
  project_key :: string
  project_issuetypes :: "IssueTypeMeta list"

record CreateMetaResponse =
  meta_fields :: "(string \<times> CreateMetaField) list option"
  meta_name :: "string option"
  meta_description :: "string option"
  meta_projects :: "ProjectMeta list option"

record ErrorCollection =
  errorMessages :: "string list option"
  errors :: "(string \<times> string) list option"

record IssueTransition =
  transition_status :: int
  transition_errorCollection :: "ErrorCollection option"

record CreateIssueResponse =
  issue_key :: string
  issue_id :: string
  issue_self :: string
  issue_transition :: "IssueTransition option"

text \<open>The truth value of an optional string: absent and empty are falsy.\<close>

definition truthy :: "string option \<Rightarrow> bool" where
  "truthy s = (case s of None \<Rightarrow> False | Some x \<Rightarrow> x \<noteq> [])"

text \<open>The body of the \<open>forEach\<close> of \<open>formatFieldList\<close>: the two lines of one field.\<close>

definition fieldLines :: "host \<Rightarrow> string \<times> CreateMetaField \<Rightarrow> string list" where
  "fieldLines h entry =
     (let fieldId = fst entry;
          field = snd entry;
          displayId = (if truthy (field_key field) then the (field_key field)
                       else if truthy (field_fieldId field) then the (field_fieldId field)
                       else fieldId);
          line1 = ''- **'' @ field_name field @ ''** ('' @ [CHR 0x60] @ displayId
                  @ [CHR 0x60] @ '')'';
          details1 = [''Type: '' @ schema_type (field_schema field)];
          details2 = (if truthy (schema_system (field_schema field))
                      then details1 @ [''System: '' @ the (schema_system (field_schema field))]
                      else details1);
          details3 = (if truthy (schema_custom (field_schema field))
                      then details2 @ [''Custom: '' @ the (schema_custom (field_schema field))]
                      else details2);
          details4 =
            (case field_allowedValues field of
               None \<Rightarrow> details3
             | Some allowed \<Rightarrow>
                 let vals = map (\<lambda>val. if is_object val \<and> has_property ''name'' val
                                         then js_String h (get_property ''name'' val)
                                         else js_String h val)
                              (take 5 allowed)
                 in details3 @ [''Values: '' @ join '', '' vals
                                @ (if length allowed > 5 then ''...'' else [])]);
          details5 = (if field_defaultValue field \<noteq> JUndefined
                         \<and> field_defaultValue field \<noteq> JNull
                      then details4 @ [''Default: '' @ js_String h (field_defaultValue field)]
                      else details4)
      in [line1, ''  '' @ join '' | '' details5])"

definition formatFieldList ::
  "host \<Rightarrow> (string \<times> CreateMetaField) list \<Rightarrow> bool \<Rightarrow> string" where
  "formatFieldList h entries limitOptional =
     (if length entries = 0 then ''*None*''
      else
        let fieldsToShow = (if limitOptional then take 10 entries else entries);
            lines1 = concat (map (fieldLines h) fieldsToShow);
            lines2 = (if limitOptional \<and> length entries > 10
                      then lines1 @ [''*... and '' @ show_nat (length entries - 10)
                                     @ '' more optional fields*'']
                      else lines1)
        in join [NL] lines2)"

text \<open>The two filters over \<open>Object.entries\<close> of a field mapping, named as the
  constants of the source that hold their results.\<close>

definition requiredFields ::
  "(string \<times> CreateMetaField) list \<Rightarrow> (string \<times> CreateMetaField) list" where
  "requiredFields entries = filter (\<lambda>(fieldId, field). field_required field) entries"

definition optionalFields ::
  "(string \<times> CreateMetaField) list \<Rightarrow> (string \<times> CreateMetaField) list" where
  "optionalFields entries = filter (\<lambda>(fieldId, field). \<not> field_required field) entries"

text \<open>The body of the \<open>forEach\<close> over the issue types of the legacy response.\<close>

definition issueTypeLines :: "host \<Rightarrow> nat \<Rightarrow> IssueTypeMeta \<Rightarrow> string list" where
  "issueTypeLines h index issueType =
     (let lines0 = (if index > 0 then [[], formatSeparator, []] else []);
          lines1 = lines0 @ [formatHeading (issuetype_name issueType) 2,
                             ''**ID**: '' @ issuetype_id issueType];
          lines2 = (if truthy (issuetype_description issueType)
                    then lines1 @ [''**Description**: ''
                                   @ the (issuetype_description issueType)]
                    else lines1);
          lines3 = lines2 @ [''**Subtask**: ''
                             @ (if issuetype_subtask issueType then ''Yes'' else ''No''),
                             []];
          lines4 = lines3 @ [formatHeading ''Required Fields'' 3,
                             formatFieldList h (requiredFields (issuetype_fields issueType))
                               False,
                             [],
                             formatHeading ''Optional Fields'' 3]
      in if length (optionalFields (issuetype_fields issueType)) > 0
         then lines4 @ [formatFieldList h (optionalFields (issuetype_fields issueType)) True]
         else lines4 @ [''*No optional fields available.*''])"

text \<open>\<open>formatCreateMeta(metadata, projectKey)\<close>; \<open>now\<close> is the value of \<open>new Date()\<close>.
  An object is truthy, so \<open>metadata.fields\<close> holds whenever the property is present.\<close>

definition formatCreateMeta ::
  "host \<Rightarrow> CreateMetaResponse \<Rightarrow> string \<Rightarrow> utc_fields \<Rightarrow> string" where
  "formatCreateMeta h metadata projectKey now =
     (let lines0 = [formatHeading ''Issue Creation Metadata'' 1,
                    ''Project: **'' @ projectKey @ ''**'',
                    []];
          lines1 =
            (if meta_fields metadata \<noteq> None \<and> truthy (meta_name metadata) then
               let entries = the (meta_fields metadata);
                   a = lines0 @ [formatHeading (''Issue Type: '' @ the (meta_name metadata)) 2];
                   b = (if truthy (meta_description metadata)
                        then a @ [''*'' @ the (meta_description metadata) @ ''*'', []]
                        else a);
                   c = b @ [formatHeading ''Required Fields'' 3,
                            formatFieldList h (requiredFields entries) False,
                            [],
                            formatHeading ''Optional Fields'' 3]
               in c @ [formatFieldList h (optionalFields entries) False]
             else
               case meta_projects metadata of
                 Some (project # others) \<Rightarrow>
                   lines0 @ [''**'' @ project_name project @ ''** ('' @ project_key project
                             @ '')'', []]
                   @ concat (map (\<lambda>(index, issueType). issueTypeLines h index issueType)
                               (enumerate 0 (project_issuetypes project)))
               | _ \<Rightarrow> lines0 @ [''*No issue types available for this project.*''])
      in join [NL]
           (lines1 @ [[], formatSeparator,
                      ''*Retrieved at: '' @ formatDate h (OfDate (ValidDate now)) @ ''*'']))"

text \<open>\<open>formatCreateIssueResponse(response)\<close>. The heading starts with U+2705 (three
  bytes in UTF-8). \<open>issueInfo\<close> is the object literal of the source.\<close>

definition issueInfo :: "CreateIssueResponse \<Rightarrow> (string \<times> js_value) list" where
  "issueInfo response =
     [(''Issue Key'', JStr (issue_key response)),
      (''Issue ID'', JStr (issue_id response)),
      (''Jira URL'', JStr (formatUrl (Some (issue_self response)) (Some ''Open in Jira''))),
      (''Browse URL'',
         JStr (formatUrl
                 (Some (replace_first ''/rest/api/3/issue/'' ''/browse/'' (issue_self response)))
                 (Some ''View in Browser'')))]"

definition formatCreateIssueResponse ::
  "host \<Rightarrow> CreateIssueResponse \<Rightarrow> utc_fields \<Rightarrow> string" where
  "formatCreateIssueResponse h response now =
     (let lines0 = [formatHeading ([CHR 0xE2, CHR 0x9C, CHR 0x85]
                                   @ '' Issue Created Successfully'') 1,
                    []];
          lines1 = lines0 @ [formatBulletList h (issueInfo response) None];
          lines2 =
            (case issue_transition response of
               None \<Rightarrow> lines1
             | Some transition \<Rightarrow>
                 let a = lines1 @ [[], formatHeading ''Creation Status'' 2,
                                   ''Status Code: '' @ show_int (transition_status transition)]
                 in case transition_errorCollection transition of
                      None \<Rightarrow> a
                    | Some errs \<Rightarrow>
                        let b = (case errorMessages errs of
                                   Some (m # ms) \<Rightarrow>
                                     a @ [[], ''**Warnings:**'']
                                     @ map (\<lambda>msg. ''- '' @ msg) (m # ms)
                                 | _ \<Rightarrow> a)
                        in case errors errs of
                             Some (e # es) \<Rightarrow>
                               b @ [[], ''**Field Errors:**'']
                               @ map (\<lambda>(field, error). ''- **'' @ field @ ''**: '' @ error)
                                   (e # es)
                           | _ \<Rightarrow> b)
      in join [NL]
           (lines2 @ [[], formatSeparator,
                      ''*Issue created at: '' @ formatDate h (OfDate (ValidDate now)) @ ''*'']))"

section \<open>Notions used in the properties\<close>

text \<open>The lines of a document: its pieces between line feeds.\<close>

fun split_lines :: "string \<Rightarrow> string list" where
  "split_lines [] = [[]]"
| "split_lines (c # cs) =
     (if c = NL then [] # split_lines cs
      else (case split_lines cs of [] \<Rightarrow> [[c]] | l # ls \<Rightarrow> (c # l) # ls))"

text \<open>The lines of the pagination footer between the separator and the time stamp,
  and the rendered time stamp of a valid date.\<close>

definition count_line :: "ResponsePagination \<Rightarrow> string list" where
  "count_line p =
     (let cnt = (case count p of None \<Rightarrow> 0 | Some c \<Rightarrow> c)
      in if (case total p of None \<Rightarrow> False | Some t \<Rightarrow> t \<ge> 0)
         then [''*Showing '' @ show_int cnt @ '' of '' @ show_int (the (total p))
               @ '' total items.*'']
         else if cnt \<ge> 0
         then [''*Showing '' @ show_int cnt @ '' item'' @ (if cnt \<noteq> 1 then ''s'' else [])
               @ ''.*'']
         else [])"

definition more_lines :: "ResponsePagination \<Rightarrow> string list" where
  "more_lines p =
     (if hasMore p
      then ''More results are available.''
           # (if (case nextCursor p of None \<Rightarrow> False | Some c \<Rightarrow> c \<noteq> [])
              then [''*Use --start-at '' @ the (nextCursor p) @ '' to view more.*'']
              else [])
      else [])"

definition utc_stamp :: "utc_fields \<Rightarrow> string" where
  "utc_stamp t =
     iso_year (year t) @ ''-'' @ pad 2 (month t) @ ''-'' @ pad 2 (day t) @ '' ''
     @ pad 2 (hours t) @ '':'' @ pad 2 (minutes t) @ '':'' @ pad 2 (seconds t) @ '' UTC''"

definition retrieved_line :: "utc_fields \<Rightarrow> string" where
  "retrieved_line t = ''*Information retrieved at: '' @ utc_stamp t @ ''*''"

subsection \<open>Example inputs\<close>

text \<open>A host in the UTC time zone: its \<open>Date\<close> constructor accepts a string of
  exactly the form \<open>YYYY-MM-DDTHH:MM:SS\<close> with every field in range, and it renders a
  date day first.\<close>

definition read_nat :: "string \<Rightarrow> nat" where
  "read_nat s = foldl (\<lambda>a c. 10 * a + (of_char c - 48)) 0 s"

definition example_parse :: "string \<Rightarrow> js_date" where
  "example_parse s =
     (if length s = 19 \<and> date_time_prefix s then
        let y = read_nat (take 4 s);
            mo = read_nat (take 2 (drop 5 s));
            d = read_nat (take 2 (drop 8 s));
            hh = read_nat (take 2 (drop 11 s));
            mi = read_nat (take 2 (drop 14 s));
            ss = read_nat (take 2 (drop 17 s))
        in if 1 \<le> mo \<and> mo \<le> 12 \<and> 1 \<le> d \<and> d \<le> 31 \<and> hh \<le> 23 \<and> mi \<le> 59 \<and> ss \<le> 59
           then ValidDate \<lparr>year = int y, month = mo, day = d, hours = hh, minutes = mi,
                            seconds = ss, millis = 0\<rparr>
           else InvalidDate
      else InvalidDate)"

definition example_locale :: "utc_fields \<Rightarrow> string" where
  "example_locale t =
     pad 2 (day t) @ ''/'' @ pad 2 (month t) @ ''/'' @ iso_year (year t) @ '', ''
     @ pad 2 (hours t) @ '':'' @ pad 2 (minutes t) @ '':'' @ pad 2 (seconds t)"

definition example_host :: host where
  "example_host =
     \<lparr>date_parse = example_parse, date_of_number = (\<lambda>n. InvalidDate),
      locale_string = example_locale, date_string = utc_stamp\<rparr>"

definition example_now :: utc_fields where
  "example_now =
     \<lparr>year = 2026, month = 11, day = 2, hours = 9, minutes = 5, seconds = 7, millis = 42\<rparr>"

definition page_without_more :: ResponsePagination where
  "page_without_more =
     \<lparr>count = Some 25, total = Some 25, hasMore = False, nextCursor = Some ''50''\<rparr>"

definition page_with_cursor :: ResponsePagination where
  "page_with_cursor =
     \<lparr>count = Some 25, total = Some 100, hasMore = True, nextCursor = Some ''25''\<rparr>"



definition empty_projects :: CreateMetaResponse where
  "empty_projects =
     \<lparr>meta_fields = None, meta_name = None, meta_description = None, meta_projects = Some []\<rparr>"



definition name_without_fields :: CreateMetaResponse where
  "name_without_fields =
     \<lparr>meta_fields = Some [], meta_name = Some ''Bug'', meta_description = None,
      meta_projects = None\<rparr>"



definition created_issue :: CreateIssueResponse where
  "created_issue =
     \<lparr>issue_key = ''ABC-1'', issue_id = ''10001'',
      issue_self = ''https://x.atlassian.net/rest/api/3/issue/10001'',
      issue_transition = None\<rparr>"

definition created_issue_v2 :: CreateIssueResponse where
  "created_issue_v2 =
     \<lparr>issue_key = ''ABC-1'', issue_id = ''10001'',
      issue_self = ''https://x.atlassian.net/rest/api/2/issue/10001'',
      issue_transition = None\<rparr>"

definition created_issue_y :: CreateIssueResponse where
  "created_issue_y =
     \<lparr>issue_key = ''XYZ-42'', issue_id = ''42'',
      issue_self = ''https://y.atlassian.net/rest/api/3/issue/42'',
      issue_transition = None\<rparr>"


definition later_now :: utc_fields where
  "later_now =
     \<lparr>year = 2026, month = 11, day = 2, hours = 9, minutes = 5, seconds = 8, millis = 0\<rparr>"

section \<open>Properties\<close>

text \<open>
  C10. The URL renderer returns the sentinel text \<open>Not available\<close> for every falsy url
  argument: for the absent url and for the empty string alike, whatever the title. A
  markdown link is produced exactly for a non-empty url, so the empty-string url is
  never rendered as a link.
\<close>

theorem formatUrl_falsy_not_available:
  "formatUrl None title = ''Not available''
   \<and> formatUrl (Some []) title = ''Not available''
   \<and> (formatUrl url title = ''Not available'') = (url = None \<or> url = Some [])"
  by (auto simp: formatUrl_def Let_def split: option.splits)

subsection \<open>Strings, lines and dates\<close>

lemma join_Cons: "join sep (x # xs) = x @ (if xs = [] then [] else sep @ join sep xs)"
  by (cases xs) simp_all

lemma join_snoc: "xs \<noteq> [] \<Longrightarrow> join sep (xs @ [l]) = join sep xs @ sep @ l"
  by (induction sep xs rule: join.induct) simp_all

lemma sublist_join: "x \<in> set xs \<Longrightarrow> sublist x (join sep xs)"
proof (induction sep xs rule: join.induct)
  case (3 sep a b ys)
  show ?case
  proof (cases "x = a")
    case True
    then show ?thesis by simp
  next
    case False
    with 3 have "sublist x (join sep (b # ys))" by simp
    then obtain ps ss where "join sep (b # ys) = ps @ x @ ss"
      by (auto simp: sublist_def)
    then have "join sep (a # b # ys) = (a @ sep @ ps) @ x @ ss" by simp
    then show ?thesis unfolding sublist_def by blast
  qed
qed simp_all

lemma split_lines_nonempty: "split_lines s \<noteq> []"
  by (induction s) (auto split: list.splits)

lemma split_lines_append_NL: "split_lines (a @ NL # b) = split_lines a @ split_lines b"
proof (induction a)
  case Nil
  then show ?case by simp
next
  case (Cons c a)
  then show ?case
    using split_lines_nonempty [of a] by (cases "split_lines a") simp_all
qed

lemma split_lines_single: "NL \<notin> set l \<Longrightarrow> split_lines l = [l]"
  by (induction l) auto


lemma digit_char_is_digit: "is_digit (digit_char n)"
  unfolding is_digit_def digit_char_def by (rule nth_mem) simp

lemma show_nat_digits: "c \<in> set (show_nat n) \<Longrightarrow> is_digit c"
proof (induction n rule: show_nat.induct)
  case (1 n)
  then show ?case
    by (subst (asm) (2) show_nat.simps) (auto simp: digit_char_is_digit split: if_splits)
qed

lemma show_nat_nonempty: "show_nat n \<noteq> []"
  by (subst show_nat.simps) simp

lemma pad_digits: "c \<in> set (pad w n) \<Longrightarrow> is_digit c"
  by (auto simp: pad_def is_digit_def dest: show_nat_digits)

lemma pad_nonempty: "pad w n \<noteq> []"
  by (simp add: pad_def show_nat_nonempty)

lemma show_int_chars: "c \<in> set (show_int i) \<Longrightarrow> is_digit c \<or> c = CHR ''-''"
  by (auto simp: show_int_def dest: show_nat_digits split: if_splits)

lemma iso_year_chars: "c \<in> set (iso_year y) \<Longrightarrow> is_digit c \<or> c = CHR ''-'' \<or> c = CHR ''+''"
  by (auto simp: iso_year_def dest: pad_digits split: if_splits)

lemma replace_first_char:
  "c \<notin> set a \<Longrightarrow> replace_first [c] rep (a @ c # b) = a @ rep @ b"
  by (induction a) auto

lemma frac_Z_digits: "ds \<noteq> [] \<Longrightarrow> \<forall>c \<in> set ds. is_digit c \<Longrightarrow> frac_Z (CHR ''.'' # ds @ ''Z'')"
  by (simp add: frac_Z_def is_digit_def)

lemma replace_frac_Z_suffix:
  "CHR ''.'' \<notin> set a \<Longrightarrow> ds \<noteq> [] \<Longrightarrow> \<forall>c \<in> set ds. is_digit c
   \<Longrightarrow> replace_frac_Z (a @ CHR ''.'' # ds @ ''Z'') = a @ '' UTC''"
proof (induction a)
  case Nil
  then show ?case using frac_Z_digits [of ds] by simp
next
  case (Cons x a)
  then have "\<not> frac_Z (x # a @ CHR ''.'' # ds @ ''Z'')"
    by (auto simp: frac_Z_def)
  with Cons show ?case by simp
qed

lemma formatDate_valid:
  "formatDate h (OfDate (ValidDate t)) = utc_stamp t"
proof -
  let ?a = "iso_year (year t) @ ''-'' @ pad 2 (month t) @ ''-'' @ pad 2 (day t)"
  let ?b = "pad 2 (hours t) @ '':'' @ pad 2 (minutes t) @ '':'' @ pad 2 (seconds t)"
  have a: "CHR ''T'' \<notin> set ?a"
    by (auto simp: is_digit_def dest!: iso_year_chars pad_digits)
  have ab: "CHR ''.'' \<notin> set (?a @ '' '' @ ?b)"
    by (auto simp: is_digit_def dest!: iso_year_chars pad_digits)
  have iso: "toISOString (ValidDate t) = Inr (?a @ CHR ''T'' # (?b @ CHR ''.'' # pad 3 (millis t) @ ''Z''))"
    by (simp add: toISOString_def)
  have "replace_first ''T'' '' '' (?a @ CHR ''T'' # (?b @ CHR ''.'' # pad 3 (millis t) @ ''Z''))
        = ?a @ '' '' @ (?b @ CHR ''.'' # pad 3 (millis t) @ ''Z'')"
    using a by (rule replace_first_char)
  also have "\<dots> = (?a @ '' '' @ ?b) @ CHR ''.'' # pad 3 (millis t) @ ''Z''"
    by simp
  finally have r: "replace_frac_Z (replace_first ''T'' '' '' (?a @ CHR ''T'' # (?b @ CHR ''.'' # pad 3 (millis t) @ ''Z'')))
       = (?a @ '' '' @ ?b) @ '' UTC''"
    using replace_frac_Z_suffix [OF ab pad_nonempty, of 3 "millis t"] pad_digits by simp
  show ?thesis
    using r by (simp add: formatDate_def toISOString_def utc_stamp_def)
qed

lemma strip_units_no_match:
  "find (\<lambda>w. w \<noteq> [] \<and> prefix w s) us = None \<Longrightarrow> strip_units us s = s"
  by (subst strip_units.simps) simp

lemma trim_id:
  assumes "s \<noteq> []" and "hd s = CHR ''-''" and "last s = CHR ''*''"
  shows "trim s = s"
proof -
  from assms obtain s' where s: "s = CHR ''-'' # s'"
    by (cases s) auto
  have front: "strip_units white_space s = s"
    unfolding s by (rule strip_units_no_match) (simp add: white_space_def)
  from assms have r: "rev s = CHR ''*'' # rev (butlast s)"
    by (metis append_butlast_last_id rev.simps(2) rev_rev_ident rev_swap append_Cons append_Nil rev_append rev_singleton_conv)
  have rear: "strip_units (map rev white_space) (rev s) = rev s"
    unfolding r by (rule strip_units_no_match) (simp add: white_space_def)
  show ?thesis
    by (simp add: trim_def front rear)
qed

lemma formatPagination_eq:
  "formatPagination h p now =
     join [NL] (''---'' # count_line p @ more_lines p @ [retrieved_line now])"
proof -
  let ?mid = "count_line p @ more_lines p"
  let ?s = "join [NL] (''---'' # ?mid @ [retrieved_line now])"
  have unfold: "formatPagination h p now = trim ?s"
    by (simp add: formatPagination_def Let_def count_line_def more_lines_def
        retrieved_line_def formatDate_valid formatSeparator_def)
  have hd: "?s \<noteq> []" "hd ?s = CHR ''-''"
    by (simp_all add: join_Cons)
  have "?s = join [NL] (''---'' # ?mid) @ [NL] @ retrieved_line now"
    using join_snoc [of "''---'' # ?mid" "[NL]" "retrieved_line now"] by simp
  then have "last ?s = CHR ''*''"
    by (simp add: retrieved_line_def)
  with hd unfold show ?thesis
    by (simp add: trim_id)
qed

lemma set_join: "c \<in> set (join sep xs) \<Longrightarrow> c \<in> set sep \<or> (\<exists>x \<in> set xs. c \<in> set x)"
  by (induction sep xs rule: join.induct) auto

lemma retrieved_line_chars:
  "c \<in> set (retrieved_line t) \<Longrightarrow> is_digit c \<or> c \<in> set ''*Information retrieved at: -+UTC''"
  by (auto simp: retrieved_line_def utc_stamp_def dest!: iso_year_chars pad_digits)

lemma retrieved_line_no_NL: "NL \<notin> set (retrieved_line t)"
  by (auto simp: NL_def is_digit_def dest!: retrieved_line_chars)

lemma count_line_chars:
  "l \<in> set (count_line p) \<Longrightarrow> c \<in> set l \<Longrightarrow> is_digit c \<or> c \<in> set ''*Showing of total items.-''"
  by (auto simp: count_line_def Let_def dest!: show_int_chars split: if_splits)


lemma sublist_skip:
  "c \<notin> set q \<Longrightarrow> sublist (c # pat) (q @ r) = sublist (c # pat) r"
  by (induction q) (auto simp: sublist_Cons_right)

text \<open>
  C6. For every pagination input with \<open>hasMore = false\<close> the rendered footer does not
  contain the text \<open>Use --start-at\<close>, whatever the counts, the cursor and the time.
\<close>

theorem pagination_no_hint_without_more:
  "\<not> hasMore p \<Longrightarrow> \<not> sublist ''Use --start-at'' (formatPagination h p now)"
proof -
  assume "\<not> hasMore p"
  then have more: "more_lines p = []"
    by (simp add: more_lines_def)
  let ?date = "iso_year (year now) @ ''-'' @ pad 2 (month now) @ ''-'' @ pad 2 (day now) @ '' ''
     @ pad 2 (hours now) @ '':'' @ pad 2 (minutes now) @ '':'' @ pad 2 (seconds now)"
  let ?q = "join [NL] (''---'' # count_line p) @ [NL] @ ''*Information retrieved at: '' @ ?date @ '' ''"
  have "formatPagination h p now = join [NL] ((''---'' # count_line p) @ [retrieved_line now])"
    by (simp add: formatPagination_eq more)
  also have "\<dots> = join [NL] (''---'' # count_line p) @ [NL] @ retrieved_line now"
    by (rule join_snoc) simp
  also have "\<dots> = ?q @ ''UTC*''"
    by (simp add: retrieved_line_def utc_stamp_def)
  finally have eq: "formatPagination h p now = ?q @ ''UTC*''" .
  have "CHR ''U'' \<notin> set (join [NL] (''---'' # count_line p))"
    by (auto simp: NL_def is_digit_def dest!: set_join count_line_chars)
  moreover have "CHR ''U'' \<notin> set ?date"
    by (auto simp: is_digit_def dest!: iso_year_chars pad_digits)
  ultimately have "CHR ''U'' \<notin> set ?q"
    by (simp add: NL_def)
  then have "sublist ''Use --start-at'' (?q @ ''UTC*'') = sublist ''Use --start-at'' ''UTC*''"
    by (rule sublist_skip)
  then show ?thesis
    unfolding eq by (simp add: sublist_Cons_right)
qed

theorem pagination_no_hint_without_more_witness:
  "\<not> hasMore page_without_more
   \<and> \<not> sublist ''Use --start-at'' (formatPagination example_host page_without_more example_now)"
  using pagination_no_hint_without_more [of page_without_more example_host example_now]
  by (simp add: page_without_more_def)














lemma pagination_butlast:
  "butlast (split_lines (formatPagination h p now)) =
     split_lines (join [NL] (''---'' # count_line p @ more_lines p))"
proof -
  have "formatPagination h p now =
      join [NL] ((''---'' # count_line p @ more_lines p) @ [retrieved_line now])"
    by (simp add: formatPagination_eq)
  also have "\<dots> = join [NL] (''---'' # count_line p @ more_lines p) @ NL # retrieved_line now"
    using join_snoc [of "''---'' # count_line p @ more_lines p" "[NL]" "retrieved_line now"]
    by simp
  finally show ?thesis
    by (simp add: split_lines_append_NL split_lines_single retrieved_line_no_NL)
qed

subsection \<open>Values and the issue creation formatters\<close>

lemma date_time_prefix_not_url:
  "date_time_prefix s \<Longrightarrow> \<not> prefix ''http://'' s \<and> \<not> prefix ''https://'' s"
  by (auto simp: date_time_prefix_def is_digit_def split: list.splits)

text \<open>
  C2. What the code does on a string with the date-time prefix: it never takes the url
  branch, it hands the string to the \<open>Date\<close> constructor and returns the locale
  rendering of the result. Neither the constructor nor \<open>toLocaleString\<close> throws, so the
  \<open>catch\<close> branch is never taken: for a string the constructor cannot parse the result
  is the text \<open>Invalid Date\<close> of the built-in, not \<open>Invalid date string\<close>.
\<close>

theorem formatValue_date_string:
  assumes "date_time_prefix s"
  shows "formatValue h (JStr s) =
           (case date_parse h s of
              InvalidDate \<Rightarrow> ''Invalid Date''
            | ValidDate t \<Rightarrow> locale_string h t)
         \<and> (date_parse h s = InvalidDate \<longrightarrow> formatValue h (JStr s) \<noteq> ''Invalid date string'')"
  using assms date_time_prefix_not_url [of s]
  by (simp add: formatValue_def toLocaleString_def split: js_date.splits)

theorem formatValue_date_string_witness:
  "date_time_prefix ''2024-13-45T99:99:99''
   \<and> date_parse example_host ''2024-13-45T99:99:99'' = InvalidDate
   \<and> formatValue example_host (JStr ''2024-13-45T99:99:99'') = ''Invalid Date''
   \<and> formatValue example_host (JStr ''2024-13-45T99:99:99'') \<noteq> ''Invalid date string''"
proof -
  have p: "date_time_prefix ''2024-13-45T99:99:99''"
    by (simp add: date_time_prefix_def is_digit_def)
  have i: "date_parse example_host ''2024-13-45T99:99:99'' = InvalidDate"
    by (simp add: example_host_def example_parse_def p read_nat_def)
  show ?thesis
    using formatValue_date_string [OF p, of example_host] p i by simp
qed



lemma formatHeading_levels:
  "formatHeading t 1 = ''# '' @ t" "formatHeading t 2 = ''## '' @ t"
  "formatHeading t 3 = ''### '' @ t"
  by (simp_all add: formatHeading_def Let_def numeral_eq_Suc)

lemma formatCreateMeta_fallback:
  assumes "\<not> (meta_fields md \<noteq> None \<and> truthy (meta_name md))"
    and "meta_projects md = None \<or> meta_projects md = Some []"
  shows "formatCreateMeta h md pk now =
     join [NL] [''# Issue Creation Metadata'', ''Project: **'' @ pk @ ''**'', [],
                ''*No issue types available for this project.*'', [], ''---'',
                ''*Retrieved at: '' @ utc_stamp now @ ''*'']"
  using assms
  by (auto simp: formatCreateMeta_def Let_def formatHeading_levels formatSeparator_def
      formatDate_valid)




lemma utc_stamp_no_NL: "NL \<notin> set (utc_stamp t)"
  by (auto simp: utc_stamp_def NL_def is_digit_def dest!: iso_year_chars pad_digits)

lemma butlast_lines_trailer:
  assumes "NL \<notin> set c"
  shows "butlast (split_lines (join [NL] (xs @ [a, b, c]))) = split_lines (join [NL] (xs @ [a, b]))"
proof -
  have "join [NL] ((xs @ [a, b]) @ [c]) = join [NL] (xs @ [a, b]) @ [NL] @ c"
    by (rule join_snoc) simp
  then have "join [NL] (xs @ [a, b, c]) = join [NL] (xs @ [a, b]) @ NL # c"
    by simp
  with assms show ?thesis
    by (simp add: split_lines_append_NL split_lines_single)
qed

lemma createMeta_butlast:
  "butlast (split_lines (formatCreateMeta h md pk now)) =
   butlast (split_lines (formatCreateMeta h md pk now'))"
proof -
  have n: "NL \<notin> set (''*Retrieved at: '' @ utc_stamp t @ ''*'')" for t
    using utc_stamp_no_NL [of t] by (simp add: NL_def)
  show ?thesis
    unfolding formatCreateMeta_def Let_def formatDate_valid
    by (simp only: butlast_lines_trailer [OF n])
qed

lemma createIssue_butlast:
  "butlast (split_lines (formatCreateIssueResponse h r now)) =
   butlast (split_lines (formatCreateIssueResponse h r now'))"
proof -
  have n: "NL \<notin> set (''*Issue created at: '' @ utc_stamp t @ ''*'')" for t
    using utc_stamp_no_NL [of t] by (simp add: NL_def)
  show ?thesis
    unfolding formatCreateIssueResponse_def Let_def formatDate_valid
    by (simp only: butlast_lines_trailer [OF n])
qed

text \<open>
  C7. For each of the three formatters, on the same input and host, the documents of
  two calls at the times \<open>now\<close> and \<open>now'\<close> have the same lines except for the last
  one, the time stamp line.
\<close>

theorem time_only_in_last_line:
  "butlast (split_lines (formatCreateMeta h md pk now)) =
     butlast (split_lines (formatCreateMeta h md pk now'))
   \<and> butlast (split_lines (formatCreateIssueResponse h r now)) =
     butlast (split_lines (formatCreateIssueResponse h r now'))
   \<and> butlast (split_lines (formatPagination h p now)) =
     butlast (split_lines (formatPagination h p now'))"
  using createMeta_butlast createIssue_butlast by (simp add: pagination_butlast)

text \<open>
  C1, as amended. The heading and the project line are pushed before the shape of the
  response is looked at. For a legacy response whose \<open>projects\<close> array is empty (and
  without the single-type shape) the document is the heading
  \<open># Issue Creation Metadata\<close>, the line \<open>Project: **{projectKey}**\<close>, an empty line,
  the italic line \<open>*No issue types available for this project.*\<close>, an empty line, the
  separator and the time stamp line, and nothing else.
\<close>

theorem createMeta_empty_projects:
  assumes "\<not> (meta_fields md \<noteq> None \<and> truthy (meta_name md))"
    and "meta_projects md = Some []"
  shows "formatCreateMeta h md pk now =
     join [NL] [''# Issue Creation Metadata'', ''Project: **'' @ pk @ ''**'', [],
                ''*No issue types available for this project.*'', [], ''---'',
                ''*Retrieved at: '' @ utc_stamp now @ ''*'']"
  using assms by (simp add: formatCreateMeta_fallback)

theorem createMeta_empty_projects_witness:
  "\<not> (meta_fields empty_projects \<noteq> None \<and> truthy (meta_name empty_projects))
   \<and> meta_projects empty_projects = Some []
   \<and> formatCreateMeta example_host empty_projects ''ABC'' example_now =
       join [NL] [''# Issue Creation Metadata'', ''Project: **ABC**'', [],
                  ''*No issue types available for this project.*'', [], ''---'',
                  ''*Retrieved at: 2026-11-02 09:05:07 UTC*'']"
proof -
  have s: "utc_stamp example_now = ''2026-11-02 09:05:07 UTC''"
    by (simp add: utc_stamp_def example_now_def iso_year_def pad_def show_nat.simps
        digit_char_def)
  show ?thesis
    using createMeta_empty_projects [of empty_projects example_host "''ABC''" example_now]
    by (simp add: empty_projects_def truthy_def s)
qed

text \<open>
  C1 as stated fails: the document of an empty \<open>projects\<close> array does not begin with
  the italic line.
\<close>

theorem empty_projects_document_begins_with_heading:
  "\<not> prefix ''*No issue types available for this project.*''
       (formatCreateMeta example_host empty_projects ''ABC'' example_now)"
proof -
  have "formatCreateMeta example_host empty_projects ''ABC'' example_now =
      join [NL] [''# Issue Creation Metadata'', ''Project: **'' @ ''ABC'' @ ''**'', [],
                ''*No issue types available for this project.*'', [], ''---'',
                ''*Retrieved at: '' @ utc_stamp example_now @ ''*'']"
    by (rule formatCreateMeta_fallback) (simp_all add: empty_projects_def)
  then show ?thesis
    by simp
qed


lemma replace_first_absent: "\<not> sublist pat s \<Longrightarrow> replace_first pat rep s = s"
  by (induction s) (auto simp: sublist_Cons_right)

lemma date_time_prefix_hd: "date_time_prefix s \<Longrightarrow> s \<noteq> [] \<and> is_digit (hd s)"
  by (auto simp: date_time_prefix_def split: list.splits)

lemma formatValue_text:
  assumes "s \<noteq> []" and "hd s \<notin> set ''h0123456789''"
  shows "formatValue h (JStr s) = s"
proof -
  from assms obtain c cs where s: "s = c # cs" and c: "c \<noteq> CHR ''h''" "\<not> is_digit c"
    by (cases s) (auto simp: is_digit_def)
  have "\<not> date_time_prefix s"
    using date_time_prefix_hd [of s] c by (auto simp: s)
  moreover have "\<not> prefix ''http://'' s" "\<not> prefix ''https://'' s"
    using c by (simp_all add: s)
  ultimately show ?thesis
    by (simp add: formatValue_def)
qed

lemma formatValue_rendered_url:
  "formatValue h (JStr (formatUrl (Some u) (Some (c # t)))) = formatUrl (Some u) (Some (c # t))"
  by (rule formatValue_text) (simp_all add: formatUrl_def)

lemma bullet_list_issueInfo:
  "formatBulletList h (issueInfo r) None =
     join [NL]
       [''- **Issue Key**: '' @ formatValue h (JStr (issue_key r)),
        ''- **Issue ID**: '' @ formatValue h (JStr (issue_id r)),
        ''- **Jira URL**: '' @ formatUrl (Some (issue_self r)) (Some ''Open in Jira''),
        ''- **Browse URL**: ''
          @ formatUrl (Some (replace_first ''/rest/api/3/issue/'' ''/browse/'' (issue_self r)))
              (Some ''View in Browser'')]"
  by (simp add: formatBulletList_def issueInfo_def formatValue_rendered_url)

lemma bullet_list_in_response:
  "sublist (formatBulletList h (issueInfo r) None) (formatCreateIssueResponse h r now)"
  unfolding formatCreateIssueResponse_def Let_def
  by (rule sublist_join) (auto split: option.splits list.splits)

lemma sublist_trans: "sublist a b \<Longrightarrow> sublist b c \<Longrightarrow> sublist a c"
  using sublist_order.order_trans by blast

lemma replace_first_first:
  assumes "pat \<noteq> []" and "\<not> sublist pat (a @ butlast pat)"
  shows "replace_first pat rep (a @ pat @ b) = a @ rep @ b"
  using assms(2)
proof (induction a)
  case Nil
  with assms(1) show ?case
    by (cases pat) simp_all
next
  case (Cons c a)
  have "\<not> prefix pat (c # a @ pat @ b)"
  proof
    assume p: "prefix pat (c # a @ pat @ b)"
    have "c # a @ pat @ b = ((c # a) @ butlast pat) @ last pat # b"
      using assms(1) by simp
    then have q: "prefix ((c # a) @ butlast pat) (c # a @ pat @ b)"
      by (metis prefixI)
    have "length pat \<le> length ((c # a) @ butlast pat)"
      by simp
    with p q have "prefix pat ((c # a) @ butlast pat)"
      by (rule prefix_length_prefix)
    with Cons.prems show False
      by auto
  qed
  moreover from Cons.prems have "\<not> sublist pat (a @ butlast pat)"
    by (simp add: sublist_Cons_right)
  ultimately show ?case
    using Cons.IH by simp
qed

lemma first_occurrence:
  assumes "pat \<noteq> []" and "sublist pat s"
  shows "\<exists>a b. s = a @ pat @ b \<and> \<not> sublist pat (a @ butlast pat)"
  using assms(2)
proof (induction s)
  case Nil
  with assms(1) show ?case by simp
next
  case (Cons c s)
  show ?case
  proof (cases "prefix pat (c # s)")
    case True
    then obtain b where "c # s = pat @ b"
      by (auto simp: prefix_def)
    moreover have "\<not> sublist pat (butlast pat)"
      using assms(1) sublist_length_le [of pat "butlast pat"] by (cases pat) auto
    ultimately show ?thesis
      by (intro exI [of _ "[]"] exI [of _ b]) simp
  next
    case False
    with Cons.prems have "sublist pat s"
      using assms(1) by (cases pat) (auto simp: sublist_Cons_right)
    with Cons.IH obtain a b where s: "s = a @ pat @ b"
      and n: "\<not> sublist pat (a @ butlast pat)"
      by blast
    have "\<not> prefix pat (c # a @ butlast pat)"
    proof
      assume "prefix pat (c # a @ butlast pat)"
      moreover have "prefix (c # a @ butlast pat) (c # s)"
        unfolding s using assms(1)
        by (metis append_butlast_last_id append_Cons append_assoc prefixI)
      ultimately show False
        using False prefix_order.order_trans by blast
    qed
    with n have "\<not> sublist pat ((c # a) @ butlast pat)"
      using assms(1) by (cases pat) (auto simp: sublist_Cons_right)
    with s show ?thesis
      by (intro exI [of _ "c # a"] exI [of _ b]) simp
  qed
qed

lemma browse_entry:
  "map_of (issueInfo r) ''Browse URL'' =
     Some (JStr (formatUrl
                   (Some (replace_first ''/rest/api/3/issue/'' ''/browse/'' (issue_self r)))
                   (Some ''View in Browser'')))"
  by (simp add: issueInfo_def)

lemma url_lines_in_response:
  "sublist (''- **Jira URL**: '' @ formatUrl (Some (issue_self r)) (Some ''Open in Jira'')
            @ [NL] @ ''- **Browse URL**: ''
            @ formatUrl
                (Some (replace_first ''/rest/api/3/issue/'' ''/browse/'' (issue_self r)))
                (Some ''View in Browser''))
     (formatCreateIssueResponse h r now)"
proof -
  let ?a = "''- **Issue Key**: '' @ formatValue h (JStr (issue_key r)) @ [NL]
      @ ''- **Issue ID**: '' @ formatValue h (JStr (issue_id r)) @ [NL]"
  let ?two = "''- **Jira URL**: '' @ formatUrl (Some (issue_self r)) (Some ''Open in Jira'')
      @ [NL] @ ''- **Browse URL**: ''
      @ formatUrl (Some (replace_first ''/rest/api/3/issue/'' ''/browse/'' (issue_self r)))
          (Some ''View in Browser'')"
  have "formatBulletList h (issueInfo r) None = ?a @ ?two"
    by (simp add: bullet_list_issueInfo)
  then have "sublist ?two (formatBulletList h (issueInfo r) None)"
    by (metis sublist_append_leftI)
  then show ?thesis
    using bullet_list_in_response sublist_trans by blast
qed

lemma browse_line_in_response:
  "sublist (''- **Browse URL**: ''
            @ formatUrl
                (Some (replace_first ''/rest/api/3/issue/'' ''/browse/'' (issue_self r)))
                (Some ''View in Browser''))
     (formatCreateIssueResponse h r now)"
proof -
  have "sublist (''- **Browse URL**: ''
            @ formatUrl
                (Some (replace_first ''/rest/api/3/issue/'' ''/browse/'' (issue_self r)))
                (Some ''View in Browser''))
     (formatBulletList h (issueInfo r) None)"
    unfolding bullet_list_issueInfo by (rule sublist_join) simp
  then show ?thesis
    using bullet_list_in_response sublist_trans by blast
qed

text \<open>
  C3. The Browse URL is \<open>self\<close> with the first \<open>/rest/api/3/issue/\<close> replaced by
  \<open>/browse/\<close>. For \<open>self = https://x.atlassian.net/rest/api/3/issue/10001\<close> the entry
  is the link to \<open>https://x.atlassian.net/browse/10001\<close> and the document contains its
  line; for a \<open>self\<close> without that substring the replacement changes nothing, so the
  Jira URL and the Browse URL entries render the same url, on adjacent lines of the
  document. In general, for every \<open>self\<close> of the form \<open>a + '/rest/api/3/issue/' + b\<close>
  in which the substring does not occur further to the left, the Browse URL entry is
  the link to \<open>a + '/browse/' + b\<close> and the document contains its line; every \<open>self\<close>
  that contains the substring has this form. For every \<open>self\<close> the lines of the Jira URL
  (the link to \<open>self\<close>) and of the Browse URL (the link to the replaced \<open>self\<close>) are
  adjacent in the document.
\<close>

theorem browse_url_from_self:
  "(issue_self r = ''https://x.atlassian.net/rest/api/3/issue/10001'' \<longrightarrow>
      map_of (issueInfo r) ''Browse URL'' =
        Some (JStr ''[View in Browser](https://x.atlassian.net/browse/10001)'')
      \<and> sublist ''- **Browse URL**: [View in Browser](https://x.atlassian.net/browse/10001)''
            (formatCreateIssueResponse h r now))
   \<and> (\<not> sublist ''/rest/api/3/issue/'' (issue_self r) \<longrightarrow>
      map_of (issueInfo r) ''Jira URL'' =
        Some (JStr (formatUrl (Some (issue_self r)) (Some ''Open in Jira'')))
      \<and> map_of (issueInfo r) ''Browse URL'' =
        Some (JStr (formatUrl (Some (issue_self r)) (Some ''View in Browser'')))
      \<and> sublist (''- **Jira URL**: '' @ formatUrl (Some (issue_self r)) (Some ''Open in Jira'')
                  @ [NL] @ ''- **Browse URL**: ''
                  @ formatUrl (Some (issue_self r)) (Some ''View in Browser''))
            (formatCreateIssueResponse h r now))
   \<and> (issue_self r = a @ ''/rest/api/3/issue/'' @ b
      \<and> \<not> sublist ''/rest/api/3/issue/'' (a @ ''/rest/api/3/issue'') \<longrightarrow>
      map_of (issueInfo r) ''Browse URL'' =
        Some (JStr (formatUrl (Some (a @ ''/browse/'' @ b)) (Some ''View in Browser'')))
      \<and> sublist (''- **Browse URL**: ''
                  @ formatUrl (Some (a @ ''/browse/'' @ b)) (Some ''View in Browser''))
            (formatCreateIssueResponse h r now))
   \<and> (sublist ''/rest/api/3/issue/'' (issue_self r) \<longrightarrow>
      (\<exists>a b. issue_self r = a @ ''/rest/api/3/issue/'' @ b
         \<and> \<not> sublist ''/rest/api/3/issue/'' (a @ ''/rest/api/3/issue'')
         \<and> map_of (issueInfo r) ''Browse URL'' =
             Some (JStr (formatUrl (Some (a @ ''/browse/'' @ b)) (Some ''View in Browser'')))))
   \<and> map_of (issueInfo r) ''Jira URL'' =
        Some (JStr (formatUrl (Some (issue_self r)) (Some ''Open in Jira'')))
   \<and> map_of (issueInfo r) ''Browse URL'' =
        Some (JStr (formatUrl
                      (Some (replace_first ''/rest/api/3/issue/'' ''/browse/'' (issue_self r)))
                      (Some ''View in Browser'')))
   \<and> sublist (''- **Jira URL**: '' @ formatUrl (Some (issue_self r)) (Some ''Open in Jira'')
               @ [NL] @ ''- **Browse URL**: ''
               @ formatUrl
                   (Some (replace_first ''/rest/api/3/issue/'' ''/browse/'' (issue_self r)))
                   (Some ''View in Browser''))
         (formatCreateIssueResponse h r now)"
proof -
  have bl: "butlast ''/rest/api/3/issue/'' = ''/rest/api/3/issue''"
    by simp
  have first: "replace_first ''/rest/api/3/issue/'' ''/browse/'' (x @ ''/rest/api/3/issue/'' @ y)
      = x @ ''/browse/'' @ y"
    if "\<not> sublist ''/rest/api/3/issue/'' (x @ ''/rest/api/3/issue'')" for x y
    using replace_first_first [of "''/rest/api/3/issue/''" x "''/browse/''" y] that
    unfolding bl by simp
  have c1: "map_of (issueInfo r) ''Browse URL'' =
        Some (JStr ''[View in Browser](https://x.atlassian.net/browse/10001)'')
      \<and> sublist ''- **Browse URL**: [View in Browser](https://x.atlassian.net/browse/10001)''
            (formatCreateIssueResponse h r now)"
    if x: "issue_self r = ''https://x.atlassian.net/rest/api/3/issue/10001''"
  proof -
    from x have rep: "replace_first ''/rest/api/3/issue/'' ''/browse/'' (issue_self r) =
        ''https://x.atlassian.net/browse/10001''"
      by simp
    show ?thesis
      using browse_entry [of r] browse_line_in_response [of r h now]
      unfolding rep by (simp add: formatUrl_def)
  qed
  have c2: "map_of (issueInfo r) ''Jira URL'' =
        Some (JStr (formatUrl (Some (issue_self r)) (Some ''Open in Jira'')))
      \<and> map_of (issueInfo r) ''Browse URL'' =
        Some (JStr (formatUrl (Some (issue_self r)) (Some ''View in Browser'')))
      \<and> sublist (''- **Jira URL**: '' @ formatUrl (Some (issue_self r)) (Some ''Open in Jira'')
                  @ [NL] @ ''- **Browse URL**: ''
                  @ formatUrl (Some (issue_self r)) (Some ''View in Browser''))
            (formatCreateIssueResponse h r now)"
    if n: "\<not> sublist ''/rest/api/3/issue/'' (issue_self r)"
  proof -
    from n have rep:
      "replace_first ''/rest/api/3/issue/'' ''/browse/'' (issue_self r) = issue_self r"
      by (rule replace_first_absent)
    show ?thesis
      using browse_entry [of r] url_lines_in_response [of r h now]
      unfolding rep by (simp add: issueInfo_def)
  qed
  have c3: "map_of (issueInfo r) ''Browse URL'' =
        Some (JStr (formatUrl (Some (a @ ''/browse/'' @ b)) (Some ''View in Browser'')))
      \<and> sublist (''- **Browse URL**: ''
                  @ formatUrl (Some (a @ ''/browse/'' @ b)) (Some ''View in Browser''))
            (formatCreateIssueResponse h r now)"
    if d: "issue_self r = a @ ''/rest/api/3/issue/'' @ b
      \<and> \<not> sublist ''/rest/api/3/issue/'' (a @ ''/rest/api/3/issue'')"
  proof -
    from d have rep: "replace_first ''/rest/api/3/issue/'' ''/browse/'' (issue_self r) =
        a @ ''/browse/'' @ b"
      using first [of a b] by simp
    show ?thesis
      using browse_entry [of r] browse_line_in_response [of r h now]
      unfolding rep by simp
  qed
  have c4: "\<exists>a b. issue_self r = a @ ''/rest/api/3/issue/'' @ b
         \<and> \<not> sublist ''/rest/api/3/issue/'' (a @ ''/rest/api/3/issue'')
         \<and> map_of (issueInfo r) ''Browse URL'' =
             Some (JStr (formatUrl (Some (a @ ''/browse/'' @ b)) (Some ''View in Browser'')))"
    if s: "sublist ''/rest/api/3/issue/'' (issue_self r)"
  proof -
    from s obtain x y where xy: "issue_self r = x @ ''/rest/api/3/issue/'' @ y"
      and n: "\<not> sublist ''/rest/api/3/issue/'' (x @ ''/rest/api/3/issue'')"
      using first_occurrence [of "''/rest/api/3/issue/''" "issue_self r"] unfolding bl
      by auto
    have "map_of (issueInfo r) ''Browse URL'' =
        Some (JStr (formatUrl (Some (x @ ''/browse/'' @ y)) (Some ''View in Browser'')))"
      using browse_entry [of r] first [OF n, of y] unfolding xy by simp
    with xy n show ?thesis
      by blast
  qed
  have c5: "map_of (issueInfo r) ''Jira URL'' =
        Some (JStr (formatUrl (Some (issue_self r)) (Some ''Open in Jira'')))"
    by (simp add: issueInfo_def)
  show ?thesis
    using c1 c2 c3 c4 c5 browse_entry [of r] url_lines_in_response [of r h now]
    by blast
qed

theorem browse_url_from_self_witness:
  "issue_self created_issue = ''https://x.atlassian.net/rest/api/3/issue/10001''
   \<and> map_of (issueInfo created_issue) ''Browse URL'' =
        Some (JStr ''[View in Browser](https://x.atlassian.net/browse/10001)'')
   \<and> sublist ''- **Browse URL**: [View in Browser](https://x.atlassian.net/browse/10001)''
         (formatCreateIssueResponse example_host created_issue example_now)
   \<and> \<not> sublist ''/rest/api/3/issue/'' (issue_self created_issue_v2)
   \<and> sublist (''- **Jira URL**: [Open in Jira](https://x.atlassian.net/rest/api/2/issue/10001)''
              @ [NL]
              @ ''- **Browse URL**: [View in Browser](https://x.atlassian.net/rest/api/2/issue/10001)'')
         (formatCreateIssueResponse example_host created_issue_v2 example_now)
   \<and> issue_self created_issue_y = ''https://y.atlassian.net'' @ ''/rest/api/3/issue/'' @ ''42''
   \<and> \<not> sublist ''/rest/api/3/issue/'' (''https://y.atlassian.net'' @ ''/rest/api/3/issue'')
   \<and> map_of (issueInfo created_issue_y) ''Browse URL'' =
        Some (JStr ''[View in Browser](https://y.atlassian.net/browse/42)'')
   \<and> sublist ''- **Browse URL**: [View in Browser](https://y.atlassian.net/browse/42)''
         (formatCreateIssueResponse example_host created_issue_y example_now)"
proof -
  have a: "issue_self created_issue = ''https://x.atlassian.net/rest/api/3/issue/10001''"
    by (simp add: created_issue_def)
  have b: "\<not> sublist ''/rest/api/3/issue/'' (issue_self created_issue_v2)"
    by (simp add: created_issue_v2_def sublist_Cons_right)
  have c: "issue_self created_issue_v2 = ''https://x.atlassian.net/rest/api/2/issue/10001''"
    by (simp add: created_issue_v2_def)
  have d: "issue_self created_issue_y =
      ''https://y.atlassian.net'' @ ''/rest/api/3/issue/'' @ ''42''"
    by (simp add: created_issue_y_def)
  have e: "\<not> sublist ''/rest/api/3/issue/'' (''https://y.atlassian.net'' @ ''/rest/api/3/issue'')"
    by (simp add: sublist_Cons_right)
  have x: "map_of (issueInfo created_issue) ''Browse URL'' =
        Some (JStr ''[View in Browser](https://x.atlassian.net/browse/10001)'')
      \<and> sublist ''- **Browse URL**: [View in Browser](https://x.atlassian.net/browse/10001)''
         (formatCreateIssueResponse example_host created_issue example_now)"
    using browse_url_from_self
      [where r = created_issue and h = example_host and now = example_now and a = "[]"
        and b = "[]", THEN conjunct1] a
    by simp
  have v: "sublist (''- **Jira URL**: [Open in Jira](https://x.atlassian.net/rest/api/2/issue/10001)''
              @ [NL]
              @ ''- **Browse URL**: [View in Browser](https://x.atlassian.net/rest/api/2/issue/10001)'')
         (formatCreateIssueResponse example_host created_issue_v2 example_now)"
    using browse_url_from_self
      [where r = created_issue_v2 and h = example_host and now = example_now and a = "[]"
        and b = "[]", THEN conjunct2, THEN conjunct1] b
    by (simp add: c formatUrl_def)
  have y: "map_of (issueInfo created_issue_y) ''Browse URL'' =
        Some (JStr ''[View in Browser](https://y.atlassian.net/browse/42)'')
      \<and> sublist ''- **Browse URL**: [View in Browser](https://y.atlassian.net/browse/42)''
         (formatCreateIssueResponse example_host created_issue_y example_now)"
    using browse_url_from_self
      [where r = created_issue_y and h = example_host and now = example_now
        and a = "''https://y.atlassian.net''" and b = "''42''",
        THEN conjunct2, THEN conjunct2, THEN conjunct1] d e
    by (simp add: formatUrl_def)
  show ?thesis
    using a b d e x v y by simp
qed






lemma utc_stamp_example: "utc_stamp example_now = ''2026-11-02 09:05:07 UTC''"
  by (simp add: utc_stamp_def example_now_def iso_year_def pad_def show_nat.simps digit_char_def)

lemma utc_stamp_later: "utc_stamp later_now = ''2026-11-02 09:05:08 UTC''"
  by (simp add: utc_stamp_def later_now_def iso_year_def pad_def show_nat.simps digit_char_def)


theorem time_only_in_last_line_witness:
  "butlast (split_lines (formatCreateMeta example_host name_without_fields ''ABC'' example_now)) =
     butlast (split_lines (formatCreateMeta example_host name_without_fields ''ABC'' later_now))
   \<and> butlast (split_lines (formatCreateIssueResponse example_host created_issue example_now)) =
       butlast (split_lines (formatCreateIssueResponse example_host created_issue later_now))
   \<and> butlast (split_lines (formatPagination example_host page_with_cursor example_now)) =
       butlast (split_lines (formatPagination example_host page_with_cursor later_now))
   \<and> last (split_lines (formatPagination example_host page_with_cursor example_now)) =
       ''*Information retrieved at: 2026-11-02 09:05:07 UTC*''
   \<and> last (split_lines (formatPagination example_host page_with_cursor later_now)) =
       ''*Information retrieved at: 2026-11-02 09:05:08 UTC*''"
proof -
  have l: "last (split_lines (formatPagination h p t)) = retrieved_line t" for h p t
  proof -
    have "formatPagination h p t =
        join [NL] ((''---'' # count_line p @ more_lines p) @ [retrieved_line t])"
      by (simp add: formatPagination_eq)
    also have "\<dots> = join [NL] (''---'' # count_line p @ more_lines p) @ NL # retrieved_line t"
      using join_snoc [of "''---'' # count_line p @ more_lines p" "[NL]" "retrieved_line t"]
      by simp
    finally show ?thesis
      by (simp add: split_lines_append_NL split_lines_single retrieved_line_no_NL)
  qed
  show ?thesis
    using time_only_in_last_line
      [of example_host name_without_fields "''ABC''" example_now later_now created_issue
        page_with_cursor]
    by (simp add: l retrieved_line_def utc_stamp_example utc_stamp_later)
qed

end
